theory Spec2Isabelle
  imports Main "HOL-Library.Word"
begin

section \<open>Values shared by both generations of the package\<close>

text \<open>
  The repository holds two generations of the same library. In the older one
  (\<^verbatim>\<open>kvstore.go\<close>, \<^verbatim>\<open>memory/driver.go\<close>) a driver is opened in place and
  is itself the object the store talks to. In the newer one a driver's
  \<^verbatim>\<open>Open\<close> returns a \<^verbatim>\<open>Conn\<close>. Both are embedded below; names of the older
  generation are the source's names, names of the newer generation carry the
  type they belong to (\<open>Conn_Set\<close>, \<open>New_Conn\<close>, ...).

  A Go \<^verbatim>\<open>[]byte\<close> is a slice: either \<^verbatim>\<open>nil\<close> or a sequence of bytes. It is
  modelled by its contents; a stored slice is never written to by the code
  embedded here. A Go \<^verbatim>\<open>string\<close> is a byte sequence, as \<^typ>\<open>string\<close> is.
\<close>

type_synonym byte = "8 word"

datatype bytes = nil | Bytes "byte list"

fun len :: "bytes \<Rightarrow> nat" where
  "len nil = 0"
| "len (Bytes bs) = length bs"

text \<open>The conversion \<^verbatim>\<open>[]byte(s)\<close>.\<close>

definition bytes_of_string :: "string \<Rightarrow> bytes" where
  "bytes_of_string s = Bytes (map of_char s)"

text \<open>
  An \<^verbatim>\<open>error\<close> value. \<^verbatim>\<open>ErrNotFound\<close> is one package-level value, compared
  by identity: it is a constructor of its own, different from every error made
  elsewhere, also from one with the same message.
\<close>

datatype error = ErrNotFound | ErrorString string

fun Error :: "error \<Rightarrow> string" where
  "Error ErrNotFound = ''kvstore: key not found''"
| "Error (ErrorString s) = s"

text \<open>A call either returns or panics with a message.\<close>

datatype 'a outcome = Returns 'a | Panics string

fun panicked :: "'a outcome \<Rightarrow> bool" where
  "panicked (Panics msg) = True"
| "panicked (Returns r) = False"

section \<open>The in-memory driver, older generation (memory/driver.go)\<close>

text \<open>
  \<^verbatim>\<open>DriverMemory\<close> has a map and a read/write lock. A run of one goroutine
  takes and releases the lock around each method body (also when the body
  panics, by \<^verbatim>\<open>defer\<close>), so the lock is left out. The map of a
  \<^verbatim>\<open>&DriverMemory{}\<close> is \<^verbatim>\<open>nil\<close> until \<^verbatim>\<open>Open\<close> makes one: \<open>None\<close> is the
  nil map. Reading a nil map finds nothing, deleting from it does nothing,
  assigning to it panics.
\<close>

record DriverMemory =
  data :: "(string \<rightharpoonup> bytes) option"

definition DriverMemory_Open :: "string \<Rightarrow> DriverMemory \<Rightarrow> error option outcome \<times> DriverMemory" where
  "DriverMemory_Open info d = (Returns None, d\<lparr>data := Some Map.empty\<rparr>)"

definition DriverMemory_Set ::
  "string \<Rightarrow> bytes \<Rightarrow> DriverMemory \<Rightarrow> error option outcome \<times> DriverMemory" where
  "DriverMemory_Set key val d =
     (case data d of
        None \<Rightarrow> (Panics ''assignment to entry in nil map'', d)
      | Some m \<Rightarrow> (Returns None, d\<lparr>data := Some (m(key \<mapsto> val))\<rparr>))"

definition DriverMemory_Get ::
  "string \<Rightarrow> DriverMemory \<Rightarrow> (bytes \<times> error option) outcome \<times> DriverMemory" where
  "DriverMemory_Get key d =
     (case data d of
        None \<Rightarrow> (Returns (nil, Some ErrNotFound), d)
      | Some m \<Rightarrow>
          (case m key of
             None \<Rightarrow> (Returns (nil, Some ErrNotFound), d)
           | Some val \<Rightarrow> (Returns (val, None), d)))"

definition DriverMemory_Delete ::
  "string \<Rightarrow> DriverMemory \<Rightarrow> error option outcome \<times> DriverMemory" where
  "DriverMemory_Delete key d =
     (case data d of
        None \<Rightarrow> (Returns None, d)
      | Some m \<Rightarrow> (Returns None, d\<lparr>data := Some (m(key := None))\<rparr>))"

section \<open>The in-memory driver, newer generation\<close>

text \<open>
  The newer \<^verbatim>\<open>memory\<close> package splits the driver (an empty struct) from the
  connection \<^verbatim>\<open>Conn\<close>, which has the map and the lock. \<^verbatim>\<open>Open\<close> is
  embedded with the heap below, since it allocates.
\<close>

record memory_Conn =
  conn_data :: "(string \<rightharpoonup> bytes) option"

definition memory_Conn_Set ::
  "string \<Rightarrow> bytes \<Rightarrow> memory_Conn \<Rightarrow> error option outcome \<times> memory_Conn" where
  "memory_Conn_Set key val c =
     (case conn_data c of
        None \<Rightarrow> (Panics ''assignment to entry in nil map'', c)
      | Some m \<Rightarrow> (Returns None, c\<lparr>conn_data := Some (m(key \<mapsto> val))\<rparr>))"

definition memory_Conn_Get ::
  "string \<Rightarrow> memory_Conn \<Rightarrow> (bytes \<times> error option) outcome \<times> memory_Conn" where
  "memory_Conn_Get key c =
     (case conn_data c of
        None \<Rightarrow> (Returns (nil, Some ErrNotFound), c)
      | Some m \<Rightarrow>
          (case m key of
             None \<Rightarrow> (Returns (nil, Some ErrNotFound), c)
           | Some val \<Rightarrow> (Returns (val, None), c)))"

definition memory_Conn_Delete ::
  "string \<Rightarrow> memory_Conn \<Rightarrow> error option outcome \<times> memory_Conn" where
  "memory_Conn_Delete key c =
     (case conn_data c of
        None \<Rightarrow> (Returns None, c)
      | Some m \<Rightarrow> (Returns None, c\<lparr>conn_data := Some (m(key := None))\<rparr>))"

definition memory_Conn_Close :: "memory_Conn \<Rightarrow> error option outcome \<times> memory_Conn" where
  "memory_Conn_Close c = (Returns None, c)"

section \<open>The registry\<close>

text \<open>
  \<^verbatim>\<open>drivers\<close> is a package-level map from names to driver interface values.
  \<^verbatim>\<open>Register\<close> is its only writer outside the tests, and it refuses \<^verbatim>\<open>nil\<close>;
  so the map is modelled with non-nil entries only, and the argument of
  \<^verbatim>\<open>Register\<close>, which may be \<^verbatim>\<open>nil\<close>, is an \<open>option\<close>. The two generations
  have the same \<^verbatim>\<open>Register\<close>, at two \<^verbatim>\<open>Driver\<close> types: the type is a
  parameter.
\<close>

definition Register ::
  "string \<Rightarrow> 'd option \<Rightarrow> (string \<rightharpoonup> 'd) \<Rightarrow> unit outcome \<times> (string \<rightharpoonup> 'd)" where
  "Register name d drivers =
     (case d of
        None \<Rightarrow> (Panics ''kvstore: Register driver is nil'', drivers)
      | Some drv \<Rightarrow>
          (case drivers name of
             Some dup \<Rightarrow> (Panics (''kvstore: Register called twice for driver '' @ name), drivers)
           | None \<Rightarrow> (Returns (), drivers(name \<mapsto> drv))))"

section \<open>Interfaces and the program state\<close>

text \<open>
  An interface value is its method table, each method a function on the heap
  \<open>'h\<close> the receiver lives in: a method may change the receiver, return, or
  panic. The program state is the registry and the heap. Driver code has no
  access to the registry (the variable is not exported), so a method takes and
  returns the heap only.
\<close>

record 'h Driver =
  Driver_Open :: "string \<Rightarrow> 'h \<Rightarrow> error option outcome \<times> 'h"
  Driver_Set :: "string \<Rightarrow> bytes \<Rightarrow> 'h \<Rightarrow> error option outcome \<times> 'h"
  Driver_Get :: "string \<Rightarrow> 'h \<Rightarrow> (bytes \<times> error option) outcome \<times> 'h"
  Driver_Delete :: "string \<Rightarrow> 'h \<Rightarrow> error option outcome \<times> 'h"

record 'h Conn =
  Conn_Set :: "string \<Rightarrow> bytes \<Rightarrow> 'h \<Rightarrow> error option outcome \<times> 'h"
  Conn_Get :: "string \<Rightarrow> 'h \<Rightarrow> (bytes \<times> error option) outcome \<times> 'h"
  Conn_Delete :: "string \<Rightarrow> 'h \<Rightarrow> error option outcome \<times> 'h"
  Conn_Close :: "'h \<Rightarrow> error option outcome \<times> 'h"

text \<open>The newer \<^verbatim>\<open>Driver\<close>: its \<^verbatim>\<open>Open\<close> returns a \<^verbatim>\<open>Conn\<close> (which may be nil) and an error.\<close>

record 'h ConnDriver =
  ConnDriver_Open :: "string \<Rightarrow> 'h \<Rightarrow> ('h Conn option \<times> error option) outcome \<times> 'h"

record ('d, 'h) world =
  drivers :: "string \<rightharpoonup> 'd"
  heap :: 'h

section \<open>The store, older generation (kvstore.go)\<close>

record 'h KVStore =
  driver :: "'h Driver"

text \<open>
  The message of \<^verbatim>\<open>fmt.Errorf("kvstore: unknown driver %q (forgotten import?)", driverName)\<close>.
  The verb \<^verbatim>\<open>%q\<close> is the standard library's quoting of a string; it is the
  parameter \<open>quote\<close>.
\<close>

definition unknown_driver :: "(string \<Rightarrow> string) \<Rightarrow> string \<Rightarrow> error" where
  "unknown_driver quote driverName =
     ErrorString (''kvstore: unknown driver '' @ quote driverName @ '' (forgotten import?)'')"

definition New ::
  "(string \<Rightarrow> string) \<Rightarrow> string \<Rightarrow> string \<Rightarrow> ('h Driver, 'h) world
     \<Rightarrow> ('h KVStore option \<times> error option) outcome \<times> ('h Driver, 'h) world" where
  "New quote driverName driverInfo w =
     (case drivers w driverName of
        None \<Rightarrow> (Returns (None, Some (unknown_driver quote driverName)), w)
      | Some d \<Rightarrow>
          (case Driver_Open d driverInfo (heap w) of
             (Panics msg, h) \<Rightarrow> (Panics msg, w\<lparr>heap := h\<rparr>)
           | (Returns (Some err), h) \<Rightarrow> (Returns (None, Some err), w\<lparr>heap := h\<rparr>)
           | (Returns None, h) \<Rightarrow> (Returns (Some \<lparr>driver = d\<rparr>, None), w\<lparr>heap := h\<rparr>)))"

definition KVStore_Set :: "'h KVStore \<Rightarrow> string \<Rightarrow> bytes \<Rightarrow> 'h \<Rightarrow> error option outcome \<times> 'h" where
  "KVStore_Set s key val h = Driver_Set (driver s) key val h"

definition KVStore_Get :: "'h KVStore \<Rightarrow> string \<Rightarrow> 'h \<Rightarrow> (bytes \<times> error option) outcome \<times> 'h" where
  "KVStore_Get s key h = Driver_Get (driver s) key h"

definition KVStore_Delete :: "'h KVStore \<Rightarrow> string \<Rightarrow> 'h \<Rightarrow> error option outcome \<times> 'h" where
  "KVStore_Delete s key h = Driver_Delete (driver s) key h"

section \<open>The store, newer generation\<close>

record 'h KVStore_Conn =
  conn :: "'h Conn option"

definition New_Conn ::
  "(string \<Rightarrow> string) \<Rightarrow> string \<Rightarrow> string \<Rightarrow> ('h ConnDriver, 'h) world
     \<Rightarrow> ('h KVStore_Conn option \<times> error option) outcome \<times> ('h ConnDriver, 'h) world" where
  "New_Conn quote driverName driverInfo w =
     (case drivers w driverName of
        None \<Rightarrow> (Returns (None, Some (unknown_driver quote driverName)), w)
      | Some d \<Rightarrow>
          (case ConnDriver_Open d driverInfo (heap w) of
             (Panics msg, h) \<Rightarrow> (Panics msg, w\<lparr>heap := h\<rparr>)
           | (Returns (c, Some err), h) \<Rightarrow> (Returns (None, Some err), w\<lparr>heap := h\<rparr>)
           | (Returns (c, None), h) \<Rightarrow> (Returns (Some \<lparr>conn = c\<rparr>, None), w\<lparr>heap := h\<rparr>)))"

text \<open>A method call on a nil interface value panics.\<close>

definition nil_dereference :: string where
  "nil_dereference = ''invalid memory address or nil pointer dereference''"

definition KVStore_Conn_Set ::
  "'h KVStore_Conn \<Rightarrow> string \<Rightarrow> bytes \<Rightarrow> 'h \<Rightarrow> error option outcome \<times> 'h" where
  "KVStore_Conn_Set s key val h =
     (case conn s of None \<Rightarrow> (Panics nil_dereference, h) | Some c \<Rightarrow> Conn_Set c key val h)"

definition KVStore_Conn_Get ::
  "'h KVStore_Conn \<Rightarrow> string \<Rightarrow> 'h \<Rightarrow> (bytes \<times> error option) outcome \<times> 'h" where
  "KVStore_Conn_Get s key h =
     (case conn s of None \<Rightarrow> (Panics nil_dereference, h) | Some c \<Rightarrow> Conn_Get c key h)"

definition KVStore_Conn_Delete ::
  "'h KVStore_Conn \<Rightarrow> string \<Rightarrow> 'h \<Rightarrow> error option outcome \<times> 'h" where
  "KVStore_Conn_Delete s key h =
     (case conn s of None \<Rightarrow> (Panics nil_dereference, h) | Some c \<Rightarrow> Conn_Delete c key h)"

definition KVStore_Conn_Close :: "'h KVStore_Conn \<Rightarrow> 'h \<Rightarrow> error option outcome \<times> 'h" where
  "KVStore_Conn_Close s h =
     (case conn s of None \<Rightarrow> (Panics nil_dereference, h) | Some c \<Rightarrow> Conn_Close c h)"

section \<open>The heap and the in-memory drivers as interface values\<close>

text \<open>
  Objects of one struct type live in a list; a pointer is an index into it and
  a new object is appended, so that its address is fresh. Go has no dangling
  pointer: the branch for an address outside the heap only makes the function
  total.
\<close>

type_synonym addr = nat

definition new :: "'o \<Rightarrow> 'o list \<Rightarrow> addr \<times> 'o list" where
  "new obj h = (length h, h @ [obj])"

definition at :: "addr \<Rightarrow> ('o \<Rightarrow> 'r outcome \<times> 'o) \<Rightarrow> 'o list \<Rightarrow> 'r outcome \<times> 'o list" where
  "at p method h =
     (if p < length h
      then (case method (h ! p) of (r, obj) \<Rightarrow> (r, h[p := obj]))
      else (Panics nil_dereference, h))"

text \<open>A \<^verbatim>\<open>*DriverMemory\<close> as a \<^verbatim>\<open>kvstore.Driver\<close>.\<close>

definition DriverMemory_Driver :: "addr \<Rightarrow> DriverMemory list Driver" where
  "DriverMemory_Driver p =
     \<lparr>Driver_Open = (\<lambda>info. at p (DriverMemory_Open info)),
      Driver_Set = (\<lambda>key val. at p (DriverMemory_Set key val)),
      Driver_Get = (\<lambda>key. at p (DriverMemory_Get key)),
      Driver_Delete = (\<lambda>key. at p (DriverMemory_Delete key))\<rparr>"

text \<open>\<^verbatim>\<open>func init() { kvstore.Register("memory", &DriverMemory{}) }\<close>\<close>

definition memory_init ::
  "(DriverMemory list Driver, DriverMemory list) world
     \<Rightarrow> unit outcome \<times> (DriverMemory list Driver, DriverMemory list) world" where
  "memory_init w =
     (case new \<lparr>data = None\<rparr> (heap w) of
        (p, h) \<Rightarrow>
          (case Register ''memory'' (Some (DriverMemory_Driver p)) (drivers w) of
             (r, ds) \<Rightarrow> (r, \<lparr>drivers = ds, heap = h\<rparr>)))"

text \<open>A \<^verbatim>\<open>*memory.Conn\<close> as a \<^verbatim>\<open>kvstore.Conn\<close>.\<close>

definition memory_Conn_Conn :: "addr \<Rightarrow> memory_Conn list Conn" where
  "memory_Conn_Conn p =
     \<lparr>Conn_Set = (\<lambda>key val. at p (memory_Conn_Set key val)),
      Conn_Get = (\<lambda>key. at p (memory_Conn_Get key)),
      Conn_Delete = (\<lambda>key. at p (memory_Conn_Delete key)),
      Conn_Close = at p memory_Conn_Close\<rparr>"

text \<open>
  \<^verbatim>\<open>func (d *Driver) Open(info string) (kvstore.Conn, error)\<close> returns
  \<^verbatim>\<open>&Conn{data: make(map[string][]byte)}, nil\<close>. The receiver is a pointer to
  an empty struct and is not read.
\<close>

definition memory_Driver_Open ::
  "string \<Rightarrow> memory_Conn list \<Rightarrow> (memory_Conn list Conn option \<times> error option) outcome \<times> memory_Conn list" where
  "memory_Driver_Open info h =
     (case new \<lparr>conn_data = Some Map.empty\<rparr> h of
        (p, h') \<Rightarrow> (Returns (Some (memory_Conn_Conn p), None), h'))"

definition memory_Driver :: "memory_Conn list ConnDriver" where
  "memory_Driver = \<lparr>ConnDriver_Open = memory_Driver_Open\<rparr>"

text \<open>\<^verbatim>\<open>func init() { kvstore.Register("memory", &Driver{}) }\<close>\<close>

definition memory_init_Conn ::
  "(memory_Conn list ConnDriver, memory_Conn list) world
     \<Rightarrow> unit outcome \<times> (memory_Conn list ConnDriver, memory_Conn list) world" where
  "memory_init_Conn w =
     (case Register ''memory'' (Some memory_Driver) (drivers w) of
        (r, ds) \<Rightarrow> (r, w\<lparr>drivers := ds\<rparr>))"

text \<open>The program before any \<^verbatim>\<open>init\<close> has run: \<^verbatim>\<open>drivers = make(map[string]Driver)\<close>.\<close>

definition start :: "('d, 'o list) world" where
  "start = \<lparr>drivers = Map.empty, heap = []\<rparr>"

section \<open>Reading the state of a driver\<close>

text \<open>
  The entry of a key in the map of a driver, as the index expression
  \<^verbatim>\<open>value, ok = d.data[key]\<close> finds it: \<open>None\<close> when the key is absent (or
  the map is nil), the stored bytes otherwise. The theorems use it to say
  that a key is absent or present.
\<close>

definition entry :: "DriverMemory \<Rightarrow> string \<Rightarrow> bytes option" where
  "entry d key = (case data d of None \<Rightarrow> None | Some m \<Rightarrow> m key)"

definition conn_entry :: "memory_Conn \<Rightarrow> string \<Rightarrow> bytes option" where
  "conn_entry c key = (case conn_data c of None \<Rightarrow> None | Some m \<Rightarrow> m key)"

section \<open>The mock driver of the package's tests (kvstore\_test.go)\<close>

text \<open>
  \<^verbatim>\<open>MockDriver\<close> records the arguments of the last call of each method and
  returns what its fields say. \<^verbatim>\<open>&MockDriver{}\<close> is \<open>mock\<close>.
\<close>

record MockDriver =
  OpenErr :: "error option"
  OpenInfo :: string
  SetErr :: "error option"
  SetKey :: string
  SetValue :: bytes
  GetErr :: "error option"
  GetKey :: string
  GetValue :: bytes
  DeleteErr :: "error option"
  DeleteKey :: string

definition mock :: MockDriver where
  "mock = \<lparr>OpenErr = None, OpenInfo = [], SetErr = None, SetKey = [], SetValue = nil,
            GetErr = None, GetKey = [], GetValue = nil, DeleteErr = None, DeleteKey = []\<rparr>"

definition MockDriver_Open :: "string \<Rightarrow> MockDriver \<Rightarrow> error option outcome \<times> MockDriver" where
  "MockDriver_Open info d = (Returns (OpenErr d), d\<lparr>OpenInfo := info\<rparr>)"

definition MockDriver_Set ::
  "string \<Rightarrow> bytes \<Rightarrow> MockDriver \<Rightarrow> error option outcome \<times> MockDriver" where
  "MockDriver_Set key val d = (Returns (SetErr d), d\<lparr>SetKey := key, SetValue := val\<rparr>)"

definition MockDriver_Get ::
  "string \<Rightarrow> MockDriver \<Rightarrow> (bytes \<times> error option) outcome \<times> MockDriver" where
  "MockDriver_Get key d = (Returns (GetValue d, GetErr d), d\<lparr>GetKey := key\<rparr>)"

definition MockDriver_Delete :: "string \<Rightarrow> MockDriver \<Rightarrow> error option outcome \<times> MockDriver" where
  "MockDriver_Delete key d = (Returns (DeleteErr d), d\<lparr>DeleteKey := key\<rparr>)"

definition MockDriver_Driver :: "addr \<Rightarrow> MockDriver list Driver" where
  "MockDriver_Driver p =
     \<lparr>Driver_Open = (\<lambda>info. at p (MockDriver_Open info)),
      Driver_Set = (\<lambda>key val. at p (MockDriver_Set key val)),
      Driver_Get = (\<lambda>key. at p (MockDriver_Get key)),
      Driver_Delete = (\<lambda>key. at p (MockDriver_Delete key))\<rparr>"

text \<open>
  What \<^verbatim>\<open>%q\<close> prints for a string of printable ASCII characters without
  double quote and backslash: the string between double quotes. It stands for
  \<open>quote\<close> where a statement is evaluated on such a name.
\<close>

definition quote_plain :: "string \<Rightarrow> string" where
  "quote_plain s = CHR 0x22 # s @ [CHR 0x22]"

section \<open>Sequences of calls\<close>

text \<open>
  A program's calls of \<^verbatim>\<open>Register\<close> and \<^verbatim>\<open>New\<close>, run in order on the
  program state. The results are dropped; a call that panics leaves the state
  it had reached and the run goes on, as after a \<^verbatim>\<open>recover\<close> (a program that
  does not recover stops there, in the state of a shorter run).
\<close>

datatype 'd call = Call_Register string "'d option" | Call_New string string

fun step :: "(string \<Rightarrow> string) \<Rightarrow> 'h Driver call \<Rightarrow> ('h Driver, 'h) world \<Rightarrow> ('h Driver, 'h) world" where
  "step quote (Call_Register name d) w = w\<lparr>drivers := snd (Register name d (drivers w))\<rparr>"
| "step quote (Call_New driverName driverInfo) w = snd (New quote driverName driverInfo w)"

fun step_Conn ::
  "(string \<Rightarrow> string) \<Rightarrow> 'h ConnDriver call \<Rightarrow> ('h ConnDriver, 'h) world \<Rightarrow> ('h ConnDriver, 'h) world" where
  "step_Conn quote (Call_Register name d) w = w\<lparr>drivers := snd (Register name d (drivers w))\<rparr>"
| "step_Conn quote (Call_New driverName driverInfo) w = snd (New_Conn quote driverName driverInfo w)"

text \<open>
  The operations of an opened driver or connection, run in order; each result
  is kept.
\<close>

datatype op = Op_Set string bytes | Op_Get string | Op_Delete string

datatype result = Error_only "error option outcome" | Value_error "(bytes \<times> error option) outcome"

fun Driver_apply :: "'h Driver \<Rightarrow> op \<Rightarrow> 'h \<Rightarrow> result \<times> 'h" where
  "Driver_apply d (Op_Set key val) h = (case Driver_Set d key val h of (r, h') \<Rightarrow> (Error_only r, h'))"
| "Driver_apply d (Op_Get key) h = (case Driver_Get d key h of (r, h') \<Rightarrow> (Value_error r, h'))"
| "Driver_apply d (Op_Delete key) h = (case Driver_Delete d key h of (r, h') \<Rightarrow> (Error_only r, h'))"

fun Driver_run :: "'h Driver \<Rightarrow> op list \<Rightarrow> 'h \<Rightarrow> result list" where
  "Driver_run d [] h = []"
| "Driver_run d (x # xs) h = (case Driver_apply d x h of (r, h') \<Rightarrow> r # Driver_run d xs h')"

fun Conn_apply :: "'h Conn \<Rightarrow> op \<Rightarrow> 'h \<Rightarrow> result \<times> 'h" where
  "Conn_apply c (Op_Set key val) h = (case Conn_Set c key val h of (r, h') \<Rightarrow> (Error_only r, h'))"
| "Conn_apply c (Op_Get key) h = (case Conn_Get c key h of (r, h') \<Rightarrow> (Value_error r, h'))"
| "Conn_apply c (Op_Delete key) h = (case Conn_Delete c key h of (r, h') \<Rightarrow> (Error_only r, h'))"

fun Conn_run :: "'h Conn \<Rightarrow> op list \<Rightarrow> 'h \<Rightarrow> result list" where
  "Conn_run c [] h = []"
| "Conn_run c (x # xs) h = (case Conn_apply c x h of (r, h') \<Rightarrow> r # Conn_run c xs h')"

text \<open>
  One \<^verbatim>\<open>Open\<close> and then the operations: what a caller sees is whether
  \<^verbatim>\<open>Open\<close> gave an error, and the results. In the older generation the
  operations go to the driver; in the newer one to the connection \<^verbatim>\<open>Open\<close>
  returned.
\<close>

definition Driver_session ::
  "'h Driver \<Rightarrow> string \<Rightarrow> op list \<Rightarrow> 'h \<Rightarrow> error option outcome \<times> result list" where
  "Driver_session d info ops h =
     (case Driver_Open d info h of
        (Returns None, h') \<Rightarrow> (Returns None, Driver_run d ops h')
      | (r, h') \<Rightarrow> (r, []))"

definition ConnDriver_session ::
  "'h ConnDriver \<Rightarrow> string \<Rightarrow> op list \<Rightarrow> 'h \<Rightarrow> error option outcome \<times> result list" where
  "ConnDriver_session d info ops h =
     (case ConnDriver_Open d info h of
        (Returns (Some c, None), h') \<Rightarrow> (Returns None, Conn_run c ops h')
      | (Returns (c, err), h') \<Rightarrow> (Returns err, [])
      | (Panics msg, h') \<Rightarrow> (Panics msg, []))"

section \<open>Two stores of the in-memory driver\<close>

text \<open>
  The scenario of two stores: \<^verbatim>\<open>New("memory", "")\<close> gives \<open>A\<close>, \<open>A\<close> sets
  \<open>key\<close> to \<open>val\<close>, a second \<^verbatim>\<open>New("memory", "")\<close> gives \<open>B\<close>. What is seen
  then, in order: \<open>B.Get(key)\<close>, \<open>A.Get(key)\<close>, and after \<open>B.Set(key, val')\<close>
  again \<open>A.Get(key)\<close> and \<open>B.Get(key)\<close>. \<open>None\<close> when a \<^verbatim>\<open>New\<close> gave no
  store.
\<close>

definition two_stores ::
  "(string \<Rightarrow> string) \<Rightarrow> string \<Rightarrow> bytes \<Rightarrow> bytes \<Rightarrow> ('h Driver, 'h) world
     \<Rightarrow> (bytes \<times> error option) outcome list option" where
  "two_stores quote key val val' w =
     (case New quote ''memory'' [] w of
        (Returns (Some A, None), w1) \<Rightarrow>
          (case KVStore_Set A key val (heap w1) of
             (r, h2) \<Rightarrow>
               (case New quote ''memory'' [] (w1\<lparr>heap := h2\<rparr>) of
                  (Returns (Some B, None), w3) \<Rightarrow>
                    (case KVStore_Get B key (heap w3) of
                       (b1, h4) \<Rightarrow>
                         (case KVStore_Get A key h4 of
                            (a1, h5) \<Rightarrow>
                              (case KVStore_Set B key val' h5 of
                                 (r', h6) \<Rightarrow>
                                   (case KVStore_Get A key h6 of
                                      (a2, h7) \<Rightarrow>
                                        (case KVStore_Get B key h7 of
                                           (b2, h8) \<Rightarrow> Some [b1, a1, a2, b2])))))
                | _ \<Rightarrow> None))
      | _ \<Rightarrow> None)"

definition two_stores_Conn ::
  "(string \<Rightarrow> string) \<Rightarrow> string \<Rightarrow> bytes \<Rightarrow> bytes \<Rightarrow> ('h ConnDriver, 'h) world
     \<Rightarrow> (bytes \<times> error option) outcome list option" where
  "two_stores_Conn quote key val val' w =
     (case New_Conn quote ''memory'' [] w of
        (Returns (Some A, None), w1) \<Rightarrow>
          (case KVStore_Conn_Set A key val (heap w1) of
             (r, h2) \<Rightarrow>
               (case New_Conn quote ''memory'' [] (w1\<lparr>heap := h2\<rparr>) of
                  (Returns (Some B, None), w3) \<Rightarrow>
                    (case KVStore_Conn_Get B key (heap w3) of
                       (b1, h4) \<Rightarrow>
                         (case KVStore_Conn_Get A key h4 of
                            (a1, h5) \<Rightarrow>
                              (case KVStore_Conn_Set B key val' h5 of
                                 (r', h6) \<Rightarrow>
                                   (case KVStore_Conn_Get A key h6 of
                                      (a2, h7) \<Rightarrow>
                                        (case KVStore_Conn_Get B key h7 of
                                           (b2, h8) \<Rightarrow> Some [b1, a1, a2, b2])))))
                | _ \<Rightarrow> None))
      | _ \<Rightarrow> None)"

section \<open>Round trip and overwrite\<close>

text \<open>
  Claim C1. On an opened in-memory store (its map is not nil), \<open>Set k v\<close>
  returns without error and a following \<open>Get k\<close> returns exactly the bytes
  \<open>v\<close> and no error; after \<open>Set k v1\<close> and \<open>Set k v2\<close>, \<open>Get k\<close> returns
  exactly \<open>v2\<close>. The code checks no length, so this holds for every key and
  every value, in particular for keys of 1 to 256 bytes and values of up to
  1 MiB. It holds for the driver of the older generation and for the
  connection of the newer one.
\<close>

theorem set_get_roundtrip:
  "(data d \<noteq> None \<longrightarrow>
      fst (DriverMemory_Set k v d) = Returns None
      \<and> fst (DriverMemory_Get k (snd (DriverMemory_Set k v d))) = Returns (v, None)
      \<and> fst (DriverMemory_Set k v2 (snd (DriverMemory_Set k v1 d))) = Returns None
      \<and> fst (DriverMemory_Get k (snd (DriverMemory_Set k v2 (snd (DriverMemory_Set k v1 d)))))
          = Returns (v2, None))
   \<and> (conn_data c \<noteq> None \<longrightarrow>
      fst (memory_Conn_Set k v c) = Returns None
      \<and> fst (memory_Conn_Get k (snd (memory_Conn_Set k v c))) = Returns (v, None)
      \<and> fst (memory_Conn_Set k v2 (snd (memory_Conn_Set k v1 c))) = Returns None
      \<and> fst (memory_Conn_Get k (snd (memory_Conn_Set k v2 (snd (memory_Conn_Set k v1 c)))))
          = Returns (v2, None))"
  by (auto simp: DriverMemory_Set_def DriverMemory_Get_def memory_Conn_Set_def memory_Conn_Get_def)

theorem set_get_roundtrip_witness:
  "data (snd (DriverMemory_Open [] \<lparr>data = None\<rparr>)) \<noteq> None
   \<and> fst (DriverMemory_Get ''key1''
        (snd (DriverMemory_Set ''key1'' (bytes_of_string ''value1'')
           (snd (DriverMemory_Open [] \<lparr>data = None\<rparr>)))))
       = Returns (bytes_of_string ''value1'', None)
   \<and> conn_data \<lparr>conn_data = Some Map.empty\<rparr> \<noteq> None
   \<and> fst (memory_Conn_Get ''key''
        (snd (memory_Conn_Set ''key'' (bytes_of_string ''value2'')
           (snd (memory_Conn_Set ''key'' (bytes_of_string ''value1'')
              \<lparr>conn_data = Some Map.empty\<rparr>)))))
       = Returns (bytes_of_string ''value2'', None)"
proof -
  let ?d = "snd (DriverMemory_Open [] \<lparr>data = None\<rparr>)"
  let ?c = "\<lparr>conn_data = Some Map.empty\<rparr>"
  have opened: "data ?d \<noteq> None"
    by (simp add: DriverMemory_Open_def)
  have opened': "conn_data ?c \<noteq> None"
    by simp
  show ?thesis
    using opened opened'
      set_get_roundtrip [of ?d "''key1''" "bytes_of_string ''value1''" "bytes_of_string ''value2''"
        "bytes_of_string ''value1''" ?c]
      set_get_roundtrip [of ?d "''key''" "bytes_of_string ''value1''" "bytes_of_string ''value2''"
        "bytes_of_string ''value1''" ?c]
    by blast
qed

section \<open>Absent keys and the sentinel error\<close>

text \<open>
  Claim C2. When a key is absent from the store, \<open>Get\<close> returns the nil
  slice and the error \<open>ErrNotFound\<close>; when it is present, \<open>Get\<close> returns the
  stored bytes and no error. A key is absent in a store that \<open>Open\<close> has just
  made, and after \<open>Set\<close> followed by \<open>Delete\<close> of that key. \<open>ErrNotFound\<close>
  is different from every other error value, and \<open>Get\<close> leaves the store as
  it was.
\<close>

theorem get_not_found:
  "(entry d k = None \<longrightarrow> fst (DriverMemory_Get k d) = Returns (nil, Some ErrNotFound))
   \<and> (entry d k = Some v \<longrightarrow> fst (DriverMemory_Get k d) = Returns (v, None))
   \<and> entry (snd (DriverMemory_Open info d)) k = None
   \<and> fst (DriverMemory_Get k (snd (DriverMemory_Open info d))) = Returns (nil, Some ErrNotFound)
   \<and> entry (snd (DriverMemory_Delete k (snd (DriverMemory_Set k v' d)))) k = None
   \<and> fst (DriverMemory_Get k (snd (DriverMemory_Delete k (snd (DriverMemory_Set k v' d)))))
       = Returns (nil, Some ErrNotFound)
   \<and> (\<forall>msg. ErrNotFound \<noteq> ErrorString msg)
   \<and> snd (DriverMemory_Get k d) = d"
  by (auto simp: entry_def DriverMemory_Get_def DriverMemory_Open_def DriverMemory_Delete_def
      DriverMemory_Set_def split: option.splits)

theorem get_not_found_witness:
  "entry \<lparr>data = Some [''lang'' \<mapsto> bytes_of_string ''go'']\<rparr> ''foo'' = None
   \<and> fst (DriverMemory_Get ''foo'' \<lparr>data = Some [''lang'' \<mapsto> bytes_of_string ''go'']\<rparr>)
       = Returns (nil, Some ErrNotFound)
   \<and> entry \<lparr>data = Some [''lang'' \<mapsto> bytes_of_string ''go'']\<rparr> ''lang'' = Some (bytes_of_string ''go'')
   \<and> fst (DriverMemory_Get ''lang'' \<lparr>data = Some [''lang'' \<mapsto> bytes_of_string ''go'']\<rparr>)
       = Returns (bytes_of_string ''go'', None)"
proof -
  let ?d = "\<lparr>data = Some [''lang'' \<mapsto> bytes_of_string ''go'']\<rparr>"
  have absent: "entry ?d ''foo'' = None"
    by (simp add: entry_def)
  have present: "entry ?d ''lang'' = Some (bytes_of_string ''go'')"
    by (simp add: entry_def)
  show ?thesis
    using absent present
      get_not_found [of ?d "''foo''"]
      get_not_found [of ?d "''lang''" "bytes_of_string ''go''"]
    by simp
qed

section \<open>Creating a store\<close>

text \<open>
  Claim C3. When no driver is registered under the name \<open>n\<close>, \<open>New n c\<close>
  returns no store and an error whose message is
  \<^verbatim>\<open>kvstore: unknown driver\<close>, the quoted name \<open>n\<close>,
  \<^verbatim>\<open>(forgotten import?)\<close>; the registry and the heap (every driver and every
  existing store) are as before. This holds in both generations.
\<close>

theorem New_unknown_driver:
  "(drivers w n = None \<longrightarrow>
      New quote n c w =
        (Returns (None, Some (ErrorString
           (''kvstore: unknown driver '' @ quote n @ '' (forgotten import?)''))), w))
   \<and> (drivers w' n = None \<longrightarrow>
      New_Conn quote n c w' =
        (Returns (None, Some (ErrorString
           (''kvstore: unknown driver '' @ quote n @ '' (forgotten import?)''))), w'))"
  by (simp add: New_def New_Conn_def unknown_driver_def)

theorem New_unknown_driver_witness:
  "drivers (snd (memory_init start)) ''what'' = None
   \<and> New quote_plain ''what'' [] (snd (memory_init start)) =
       (Returns (None, Some (ErrorString
          (''kvstore: unknown driver '' @ [CHR 0x22] @ ''what'' @ [CHR 0x22] @ '' (forgotten import?)''))),
        snd (memory_init start))
   \<and> drivers (snd (memory_init_Conn start)) ''what'' = None
   \<and> New_Conn quote_plain ''what'' [] (snd (memory_init_Conn start)) =
       (Returns (None, Some (ErrorString
          (''kvstore: unknown driver '' @ [CHR 0x22] @ ''what'' @ [CHR 0x22] @ '' (forgotten import?)''))),
        snd (memory_init_Conn start))"
proof -
  have old: "drivers (snd (memory_init start)) ''what'' = None"
    by (simp add: memory_init_def start_def new_def Register_def)
  have new: "drivers (snd (memory_init_Conn start)) ''what'' = None"
    by (simp add: memory_init_Conn_def start_def Register_def)
  show ?thesis
    using old new
      New_unknown_driver [of "snd (memory_init start)" "''what''" quote_plain "[]"
        "snd (memory_init_Conn start)"]
    by (simp add: quote_plain_def)
qed

text \<open>
  Claim C4. When \<open>f\<close> is registered under \<open>n\<close>, \<open>New n c\<close> changes the
  heap as one call \<open>Open c\<close> of \<open>f\<close> does, and nothing else. If that call
  returns an error, \<open>New\<close> returns no store and this very error; if it returns
  no error, \<open>New\<close> returns a store and no error: in the older generation the
  store holds \<open>f\<close> itself, in the newer one the connection that \<open>Open\<close>
  returned. If the call panics, so does \<open>New\<close>.
\<close>

theorem New_opens_once:
  "(drivers w n = Some f \<longrightarrow>
      snd (New quote n c w) = w\<lparr>heap := snd (Driver_Open f c (heap w))\<rparr>
      \<and> (\<forall>e. fst (Driver_Open f c (heap w)) = Returns (Some e)
             \<longrightarrow> fst (New quote n c w) = Returns (None, Some e))
      \<and> (fst (Driver_Open f c (heap w)) = Returns None
             \<longrightarrow> fst (New quote n c w) = Returns (Some \<lparr>driver = f\<rparr>, None))
      \<and> (\<forall>msg. fst (Driver_Open f c (heap w)) = Panics msg
             \<longrightarrow> fst (New quote n c w) = Panics msg))
   \<and> (drivers w' n = Some g \<longrightarrow>
      snd (New_Conn quote n c w') = w'\<lparr>heap := snd (ConnDriver_Open g c (heap w'))\<rparr>
      \<and> (\<forall>cn e. fst (ConnDriver_Open g c (heap w')) = Returns (cn, Some e)
             \<longrightarrow> fst (New_Conn quote n c w') = Returns (None, Some e))
      \<and> (\<forall>cn. fst (ConnDriver_Open g c (heap w')) = Returns (cn, None)
             \<longrightarrow> fst (New_Conn quote n c w') = Returns (Some \<lparr>conn = cn\<rparr>, None))
      \<and> (\<forall>msg. fst (ConnDriver_Open g c (heap w')) = Panics msg
             \<longrightarrow> fst (New_Conn quote n c w') = Panics msg))"
  by (auto simp: New_def New_Conn_def split: prod.splits outcome.splits option.splits)

theorem New_opens_once_witness:
  "drivers \<lparr>drivers = [''mock'' \<mapsto> MockDriver_Driver 0],
            heap = [mock\<lparr>OpenErr := Some (ErrorString ''open failed'')\<rparr>]\<rparr> ''mock''
     = Some (MockDriver_Driver 0)
   \<and> fst (New quote_plain ''mock'' ''info''
        \<lparr>drivers = [''mock'' \<mapsto> MockDriver_Driver 0],
         heap = [mock\<lparr>OpenErr := Some (ErrorString ''open failed'')\<rparr>]\<rparr>)
     = Returns (None, Some (ErrorString ''open failed''))
   \<and> heap (snd (New quote_plain ''mock'' ''info''
        \<lparr>drivers = [''mock'' \<mapsto> MockDriver_Driver 0],
         heap = [mock\<lparr>OpenErr := Some (ErrorString ''open failed'')\<rparr>]\<rparr>))
     = [mock\<lparr>OpenErr := Some (ErrorString ''open failed''), OpenInfo := ''info''\<rparr>]
   \<and> drivers (snd (memory_init_Conn start)) ''memory'' = Some memory_Driver
   \<and> fst (New_Conn quote_plain ''memory'' [] (snd (memory_init_Conn start)))
     = Returns (Some \<lparr>conn = Some (memory_Conn_Conn 0)\<rparr>, None)
   \<and> heap (snd (New_Conn quote_plain ''memory'' [] (snd (memory_init_Conn start))))
     = [\<lparr>conn_data = Some Map.empty\<rparr>]"
proof -
  let ?h = "[mock\<lparr>OpenErr := Some (ErrorString ''open failed'')\<rparr>]"
  let ?w = "\<lparr>drivers = [''mock'' \<mapsto> MockDriver_Driver 0], heap = ?h\<rparr>"
  let ?w' = "snd (memory_init_Conn start) :: (memory_Conn list ConnDriver, memory_Conn list) world"
  have registered: "drivers ?w ''mock'' = Some (MockDriver_Driver 0)"
    by simp
  have opened: "Driver_Open (MockDriver_Driver 0) ''info'' (heap ?w)
      = (Returns (Some (ErrorString ''open failed'')),
         [mock\<lparr>OpenErr := Some (ErrorString ''open failed''), OpenInfo := ''info''\<rparr>])"
    by (simp add: MockDriver_Driver_def at_def MockDriver_Open_def mock_def)
  have registered': "drivers ?w' ''memory'' = Some memory_Driver"
    by (simp add: memory_init_Conn_def start_def Register_def)
  have heap': "heap ?w' = []"
    by (simp add: memory_init_Conn_def start_def Register_def)
  have opened': "ConnDriver_Open memory_Driver [] (heap ?w')
      = (Returns (Some (memory_Conn_Conn 0), None), [\<lparr>conn_data = Some Map.empty\<rparr>])"
    by (simp add: heap' memory_Driver_def memory_Driver_Open_def new_def)
  show ?thesis
    using registered opened registered' opened'
      New_opens_once [of ?w "''mock''" "MockDriver_Driver 0" quote_plain "''info''"
        ?w' memory_Driver]
      New_opens_once [of ?w "''memory''" "MockDriver_Driver 0" quote_plain "[]"
        ?w' memory_Driver]
    by simp
qed

section \<open>Registering a driver\<close>

text \<open>
  Claim C5. \<open>Register name d\<close> panics exactly when \<open>d\<close> is nil or \<open>name\<close>
  has a driver already. It panics on a nil driver whatever the name and the
  registry; it panics on a registered name whatever the (non-nil) driver; a
  panic leaves the registry as it was. In every other case it returns and the
  registry is the old one with \<open>name\<close> mapped to \<open>d\<close>.
\<close>

theorem Register_panics_iff:
  "(panicked (fst (Register name d ds)) \<longleftrightarrow> d = None \<or> ds name \<noteq> None)
   \<and> Register name None ds = (Panics ''kvstore: Register driver is nil'', ds)
   \<and> (ds name \<noteq> None \<longrightarrow>
        Register name (Some f) ds
          = (Panics (''kvstore: Register called twice for driver '' @ name), ds))
   \<and> (ds name = None \<longrightarrow> Register name (Some f) ds = (Returns (), ds(name \<mapsto> f)))"
  by (auto simp: Register_def split: option.splits)

theorem Register_panics_iff_witness:
  "[''mock'' \<mapsto> MockDriver_Driver 0] ''mock'' \<noteq> None
   \<and> Register ''mock'' (Some (MockDriver_Driver 1)) [''mock'' \<mapsto> MockDriver_Driver 0]
       = (Panics ''kvstore: Register called twice for driver mock'',
          [''mock'' \<mapsto> MockDriver_Driver 0])
   \<and> [''mock'' \<mapsto> MockDriver_Driver 0] ''memory'' = None
   \<and> Register ''memory'' (Some (MockDriver_Driver 1)) [''mock'' \<mapsto> MockDriver_Driver 0]
       = (Returns (), [''mock'' \<mapsto> MockDriver_Driver 0, ''memory'' \<mapsto> MockDriver_Driver 1])
   \<and> panicked (fst (Register ''mock'' (None :: MockDriver list Driver option) Map.empty))"
proof -
  let ?ds = "[''mock'' \<mapsto> MockDriver_Driver 0]"
  have taken: "?ds ''mock'' \<noteq> None"
    by simp
  have free: "?ds ''memory'' = None"
    by simp
  show ?thesis
    using taken free
      Register_panics_iff [of "''mock''" "Some (MockDriver_Driver 1)" ?ds "MockDriver_Driver 1"]
      Register_panics_iff [of "''memory''" "Some (MockDriver_Driver 1)" ?ds "MockDriver_Driver 1"]
      Register_panics_iff [of "''mock''" "None :: MockDriver list Driver option" Map.empty]
    by simp
qed

section \<open>The registry only grows\<close>

lemma Register_keeps: "ds n = Some f \<Longrightarrow> snd (Register name d ds) n = Some f"
  by (auto simp: Register_def split: option.splits)

lemma New_drivers: "drivers (snd (New quote name info w)) = drivers w"
  by (auto simp: New_def split: option.splits prod.splits outcome.splits)

lemma New_Conn_drivers: "drivers (snd (New_Conn quote name info w)) = drivers w"
  by (auto simp: New_Conn_def split: option.splits prod.splits outcome.splits)

lemma step_keeps: "drivers w n = Some f \<Longrightarrow> drivers (step quote x w) n = Some f"
  by (cases x) (simp_all add: Register_keeps New_drivers)

lemma step_Conn_keeps: "drivers w n = Some f \<Longrightarrow> drivers (step_Conn quote x w) n = Some f"
  by (cases x) (simp_all add: Register_keeps New_Conn_drivers)

lemma run_keeps: "drivers w n = Some f \<Longrightarrow> drivers (fold (step quote) xs w) n = Some f"
  by (induction xs arbitrary: w) (simp_all add: step_keeps)

lemma run_Conn_keeps: "drivers w n = Some f \<Longrightarrow> drivers (fold (step_Conn quote) xs w) n = Some f"
  by (induction xs arbitrary: w) (simp_all add: step_Conn_keeps)

text \<open>
  Claim C6. In every program state, once the name \<open>n\<close> maps to the driver
  \<open>f\<close>, it maps to \<open>f\<close> after every sequence of calls of \<open>Register\<close> and
  \<open>New\<close>, in both generations: \<open>New\<close> does not write the registry, and
  \<open>Register\<close> writes only under a name that has no driver.
\<close>

theorem registry_insert_only:
  "(drivers w n = Some f \<longrightarrow> drivers (fold (step quote) calls w) n = Some f)
   \<and> (drivers w' n = Some g \<longrightarrow> drivers (fold (step_Conn quote) calls' w') n = Some g)
   \<and> drivers (snd (New quote name info w)) = drivers w
   \<and> drivers (snd (New_Conn quote name info w')) = drivers w'"
  by (simp add: run_keeps run_Conn_keeps New_drivers New_Conn_drivers)

theorem registry_insert_only_witness:
  "drivers (snd (memory_init start)) ''memory'' = Some (DriverMemory_Driver 0)
   \<and> drivers (fold (step quote_plain)
        [Call_Register ''memory'' (Some (DriverMemory_Driver 1)),
         Call_New ''memory'' [],
         Call_Register ''memory'' None,
         Call_Register ''other'' (Some (DriverMemory_Driver 1)),
         Call_New ''what'' []]
        (snd (memory_init start))) ''memory''
     = Some (DriverMemory_Driver 0)
   \<and> drivers (snd (memory_init_Conn start)) ''memory'' = Some memory_Driver
   \<and> drivers (fold (step_Conn quote_plain)
        [Call_New ''memory'' [], Call_Register ''memory'' None, Call_New ''memory'' ''x'']
        (snd (memory_init_Conn start))) ''memory''
     = Some memory_Driver"
proof -
  have old: "drivers (snd (memory_init start)) ''memory'' = Some (DriverMemory_Driver 0)"
    by (simp add: memory_init_def start_def new_def Register_def)
  have new: "drivers (snd (memory_init_Conn start)) ''memory'' = Some memory_Driver"
    by (simp add: memory_init_Conn_def start_def Register_def)
  show ?thesis
    using old new
      registry_insert_only [of "snd (memory_init start)" "''memory''" "DriverMemory_Driver 0"
        quote_plain
        "[Call_Register ''memory'' (Some (DriverMemory_Driver 1)),
          Call_New ''memory'' [],
          Call_Register ''memory'' None,
          Call_Register ''other'' (Some (DriverMemory_Driver 1)),
          Call_New ''what'' []]"
        "snd (memory_init_Conn start)" memory_Driver
        "[Call_New ''memory'' [], Call_Register ''memory'' None, Call_New ''memory'' ''x'']"
        "''memory''" "[]"]
    by blast
qed

section \<open>Deleting a key\<close>

text \<open>
  Claim C7. \<open>Delete k\<close> returns without error on every store and for every
  key. When \<open>k\<close> is absent the store is unchanged; in any case \<open>k\<close> is
  absent afterwards; and a second \<open>Delete k\<close> leaves the store as the first
  one left it. This holds for the driver of the older generation and for the
  connection of the newer one.
\<close>

lemma DriverMemory_Delete_absent: "entry d k = None \<Longrightarrow> snd (DriverMemory_Delete k d) = d"
  by (cases d) (auto simp: DriverMemory_Delete_def entry_def fun_upd_idem split: option.splits)

lemma memory_Conn_Delete_absent: "conn_entry c k = None \<Longrightarrow> snd (memory_Conn_Delete k c) = c"
  by (cases c) (auto simp: memory_Conn_Delete_def conn_entry_def fun_upd_idem split: option.splits)

lemma DriverMemory_Delete_entry: "entry (snd (DriverMemory_Delete k d)) k = None"
  by (simp add: DriverMemory_Delete_def entry_def split: option.splits)

lemma memory_Conn_Delete_entry: "conn_entry (snd (memory_Conn_Delete k c)) k = None"
  by (simp add: memory_Conn_Delete_def conn_entry_def split: option.splits)

lemma DriverMemory_Delete_returns: "fst (DriverMemory_Delete k d) = Returns None"
  by (simp add: DriverMemory_Delete_def split: option.splits)

lemma memory_Conn_Delete_returns: "fst (memory_Conn_Delete k c) = Returns None"
  by (simp add: memory_Conn_Delete_def split: option.splits)

theorem delete_idempotent:
  "fst (DriverMemory_Delete k d) = Returns None
   \<and> (entry d k = None \<longrightarrow> snd (DriverMemory_Delete k d) = d)
   \<and> entry (snd (DriverMemory_Delete k d)) k = None
   \<and> snd (DriverMemory_Delete k (snd (DriverMemory_Delete k d))) = snd (DriverMemory_Delete k d)
   \<and> fst (DriverMemory_Delete k (snd (DriverMemory_Delete k d))) = Returns None
   \<and> fst (memory_Conn_Delete k c) = Returns None
   \<and> (conn_entry c k = None \<longrightarrow> snd (memory_Conn_Delete k c) = c)
   \<and> conn_entry (snd (memory_Conn_Delete k c)) k = None
   \<and> snd (memory_Conn_Delete k (snd (memory_Conn_Delete k c))) = snd (memory_Conn_Delete k c)
   \<and> fst (memory_Conn_Delete k (snd (memory_Conn_Delete k c))) = Returns None"
  by (simp add: DriverMemory_Delete_absent memory_Conn_Delete_absent DriverMemory_Delete_entry
      memory_Conn_Delete_entry DriverMemory_Delete_returns memory_Conn_Delete_returns)

theorem delete_idempotent_witness:
  "entry \<lparr>data = Some [''lang'' \<mapsto> bytes_of_string ''go'']\<rparr> ''foo'' = None
   \<and> DriverMemory_Delete ''foo'' \<lparr>data = Some [''lang'' \<mapsto> bytes_of_string ''go'']\<rparr>
       = (Returns None, \<lparr>data = Some [''lang'' \<mapsto> bytes_of_string ''go'']\<rparr>)
   \<and> conn_entry \<lparr>conn_data = None\<rparr> ''something'' = None
   \<and> memory_Conn_Delete ''something'' \<lparr>conn_data = None\<rparr> = (Returns None, \<lparr>conn_data = None\<rparr>)"
proof -
  let ?d = "\<lparr>data = Some [''lang'' \<mapsto> bytes_of_string ''go'']\<rparr>"
  have absent: "entry ?d ''foo'' = None"
    by (simp add: entry_def)
  have absent': "conn_entry \<lparr>conn_data = None\<rparr> ''something'' = None"
    by (simp add: conn_entry_def)
  show ?thesis
    using absent absent'
      delete_idempotent [of "''foo''" ?d "\<lparr>conn_data = None\<rparr>"]
      delete_idempotent [of "''something''" ?d "\<lparr>conn_data = None\<rparr>"]
    by (simp add: prod_eq_iff)
qed

section \<open>Other keys are untouched\<close>

text \<open>
  Claim C10. For keys \<open>k' \<noteq> k\<close>, \<open>Get k'\<close> returns the same after
  \<open>Set k v\<close> and after \<open>Delete k\<close> as before, on the driver of the older
  generation and on the connection of the newer one: the entry of \<open>k'\<close> is
  the same.
\<close>

theorem frame_other_keys:
  "k' \<noteq> k \<longrightarrow>
     fst (DriverMemory_Get k' (snd (DriverMemory_Set k v d))) = fst (DriverMemory_Get k' d)
   \<and> fst (DriverMemory_Get k' (snd (DriverMemory_Delete k d))) = fst (DriverMemory_Get k' d)
   \<and> entry (snd (DriverMemory_Set k v d)) k' = entry d k'
   \<and> entry (snd (DriverMemory_Delete k d)) k' = entry d k'
   \<and> fst (memory_Conn_Get k' (snd (memory_Conn_Set k v c))) = fst (memory_Conn_Get k' c)
   \<and> fst (memory_Conn_Get k' (snd (memory_Conn_Delete k c))) = fst (memory_Conn_Get k' c)
   \<and> conn_entry (snd (memory_Conn_Set k v c)) k' = conn_entry c k'
   \<and> conn_entry (snd (memory_Conn_Delete k c)) k' = conn_entry c k'"
  by (auto simp: DriverMemory_Get_def DriverMemory_Set_def DriverMemory_Delete_def entry_def
      memory_Conn_Get_def memory_Conn_Set_def memory_Conn_Delete_def conn_entry_def
      split: option.splits)

theorem frame_other_keys_witness:
  "''lang'' \<noteq> ''go''
   \<and> fst (DriverMemory_Get ''lang''
        (snd (DriverMemory_Set ''go'' (bytes_of_string ''lang'')
           \<lparr>data = Some [''lang'' \<mapsto> bytes_of_string ''go'']\<rparr>)))
       = Returns (bytes_of_string ''go'', None)
   \<and> fst (memory_Conn_Get ''lang''
        (snd (memory_Conn_Delete ''go''
           \<lparr>conn_data = Some [''lang'' \<mapsto> bytes_of_string ''go'']\<rparr>)))
       = Returns (bytes_of_string ''go'', None)"
proof -
  have distinct: "''lang'' \<noteq> ''go''"
    by simp
  have before: "fst (DriverMemory_Get ''lang'' \<lparr>data = Some [''lang'' \<mapsto> bytes_of_string ''go'']\<rparr>)
      = Returns (bytes_of_string ''go'', None)"
    by (simp add: DriverMemory_Get_def)
  have before': "fst (memory_Conn_Get ''lang'' \<lparr>conn_data = Some [''lang'' \<mapsto> bytes_of_string ''go'']\<rparr>)
      = Returns (bytes_of_string ''go'', None)"
    by (simp add: memory_Conn_Get_def)
  show ?thesis
    using distinct before before'
      frame_other_keys [of "''lang''" "''go''" "bytes_of_string ''lang''"
        "\<lparr>data = Some [''lang'' \<mapsto> bytes_of_string ''go'']\<rparr>"
        "\<lparr>conn_data = Some [''lang'' \<mapsto> bytes_of_string ''go'']\<rparr>"]
    by simp
qed

section \<open>Method calls through a pointer\<close>

lemma at_valid: "p < length h \<Longrightarrow> at p m h = (fst (m (h ! p)), h[p := snd (m (h ! p))])"
  by (simp add: at_def split: prod.splits)

lemma at_length: "length (snd (at p m h)) = length h"
  by (simp add: at_def split: prod.splits)

section \<open>Two stores of one driver\<close>

lemma two_stores_Conn_memory:
  assumes "drivers w ''memory'' = Some memory_Driver"
  shows "two_stores_Conn quote k v v' w =
    Some [Returns (nil, Some ErrNotFound), Returns (v, None), Returns (v, None), Returns (v', None)]"
  using assms
  by (simp add: two_stores_Conn_def New_Conn_def memory_Driver_def memory_Driver_Open_def new_def
      KVStore_Conn_Set_def KVStore_Conn_Get_def memory_Conn_Conn_def at_def
      memory_Conn_Set_def memory_Conn_Get_def nth_append)

lemma two_stores_DriverMemory:
  assumes "drivers w ''memory'' = Some (DriverMemory_Driver p)" and "p < length (heap w)"
  shows "two_stores quote k v v' w =
    Some [Returns (nil, Some ErrNotFound), Returns (nil, Some ErrNotFound),
          Returns (v', None), Returns (v', None)]"
  using assms
  by (simp add: two_stores_def New_def DriverMemory_Driver_def KVStore_Set_def KVStore_Get_def
      at_def DriverMemory_Open_def DriverMemory_Set_def DriverMemory_Get_def)

text \<open>
  Claim C8, as the code has it. With the driver of the newer generation, two
  stores made by \<open>New "memory"\<close> are independent: after \<open>A\<close> has set \<open>k\<close>
  to \<open>v\<close>, \<open>B.Get k\<close> fails with \<open>ErrNotFound\<close> and \<open>A.Get k\<close> returns
  \<open>v\<close>, also after \<open>B\<close> has set \<open>k\<close> to another value. With the driver of
  the older generation, \<open>New\<close> opens the one registered driver object again
  and returns a store on it: \<open>B.Get k\<close> fails with \<open>ErrNotFound\<close>, and so
  does \<open>A.Get k\<close>; what \<open>B\<close> sets, \<open>A\<close> reads.
\<close>

theorem memory_stores_independent:
  "(drivers w ''memory'' = Some memory_Driver \<longrightarrow>
      two_stores_Conn quote k v v' w =
        Some [Returns (nil, Some ErrNotFound), Returns (v, None), Returns (v, None),
              Returns (v', None)])
   \<and> (drivers w0 ''memory'' = Some (DriverMemory_Driver p) \<and> p < length (heap w0) \<longrightarrow>
      two_stores quote k v v' w0 =
        Some [Returns (nil, Some ErrNotFound), Returns (nil, Some ErrNotFound),
              Returns (v', None), Returns (v', None)])"
  by (simp add: two_stores_Conn_memory two_stores_DriverMemory)

theorem memory_stores_independent_witness:
  "drivers (snd (memory_init_Conn start)) ''memory'' = Some memory_Driver
   \<and> two_stores_Conn quote_plain ''foo'' (bytes_of_string ''bar'') (bytes_of_string ''baz'')
        (snd (memory_init_Conn start))
     = Some [Returns (nil, Some ErrNotFound), Returns (bytes_of_string ''bar'', None),
             Returns (bytes_of_string ''bar'', None), Returns (bytes_of_string ''baz'', None)]
   \<and> drivers (snd (memory_init start)) ''memory'' = Some (DriverMemory_Driver 0)
   \<and> 0 < length (heap (snd (memory_init start)))
   \<and> two_stores quote_plain ''foo'' (bytes_of_string ''bar'') (bytes_of_string ''baz'')
        (snd (memory_init start))
     = Some [Returns (nil, Some ErrNotFound), Returns (nil, Some ErrNotFound),
             Returns (bytes_of_string ''baz'', None), Returns (bytes_of_string ''baz'', None)]"
proof -
  have new: "drivers (snd (memory_init_Conn start)) ''memory'' = Some memory_Driver"
    by (simp add: memory_init_Conn_def start_def Register_def)
  have old: "drivers (snd (memory_init start)) ''memory'' = Some (DriverMemory_Driver 0)"
    by (simp add: memory_init_def start_def new_def Register_def)
  have allocated: "0 < length (heap (snd (memory_init start)))"
    by (simp add: memory_init_def start_def new_def Register_def)
  show ?thesis
    using new old allocated
      memory_stores_independent [of "snd (memory_init_Conn start)" quote_plain "''foo''"
        "bytes_of_string ''bar''" "bytes_of_string ''baz''" "snd (memory_init start)" 0]
    by blast
qed

text \<open>
  The claim as stated fails on the older generation: in the program that
  starts, runs the \<open>init\<close> of \<^verbatim>\<open>memory/driver.go\<close>, makes \<open>A\<close>, sets
  \<^verbatim>\<open>foo\<close> to \<^verbatim>\<open>bar\<close> and makes \<open>B\<close>, the second result is that of
  \<open>A.Get "foo"\<close>, and it is \<open>ErrNotFound\<close>, not \<^verbatim>\<open>bar\<close>.
\<close>

theorem memory_stores_independent_counterexample:
  "two_stores quote_plain ''foo'' (bytes_of_string ''bar'') (bytes_of_string ''baz'')
      (snd (memory_init start))
     = Some [Returns (nil, Some ErrNotFound), Returns (nil, Some ErrNotFound),
             Returns (bytes_of_string ''baz'', None), Returns (bytes_of_string ''baz'', None)]
   \<and> two_stores quote_plain ''foo'' (bytes_of_string ''bar'') (bytes_of_string ''baz'')
      (snd (memory_init start))
     \<noteq> Some [Returns (nil, Some ErrNotFound), Returns (bytes_of_string ''bar'', None),
             Returns (bytes_of_string ''bar'', None), Returns (bytes_of_string ''baz'', None)]"
  by (simp add: two_stores_def New_def memory_init_def start_def new_def Register_def
      DriverMemory_Driver_def at_def DriverMemory_Open_def KVStore_Get_def KVStore_Set_def
      DriverMemory_Set_def DriverMemory_Get_def bytes_of_string_def)

section \<open>The two generations of the in-memory driver agree\<close>

lemma Driver_apply_DriverMemory:
  assumes "p < length h"
  shows "Driver_apply (DriverMemory_Driver p) x h =
    (case x of
       Op_Set key val \<Rightarrow>
         (Error_only (fst (DriverMemory_Set key val (h ! p))),
          h[p := snd (DriverMemory_Set key val (h ! p))])
     | Op_Get key \<Rightarrow>
         (Value_error (fst (DriverMemory_Get key (h ! p))),
          h[p := snd (DriverMemory_Get key (h ! p))])
     | Op_Delete key \<Rightarrow>
         (Error_only (fst (DriverMemory_Delete key (h ! p))),
          h[p := snd (DriverMemory_Delete key (h ! p))]))"
  using assms by (cases x) (simp_all add: DriverMemory_Driver_def at_valid)

lemma Conn_apply_memory_Conn:
  assumes "p < length h"
  shows "Conn_apply (memory_Conn_Conn p) x h =
    (case x of
       Op_Set key val \<Rightarrow>
         (Error_only (fst (memory_Conn_Set key val (h ! p))),
          h[p := snd (memory_Conn_Set key val (h ! p))])
     | Op_Get key \<Rightarrow>
         (Value_error (fst (memory_Conn_Get key (h ! p))),
          h[p := snd (memory_Conn_Get key (h ! p))])
     | Op_Delete key \<Rightarrow>
         (Error_only (fst (memory_Conn_Delete key (h ! p))),
          h[p := snd (memory_Conn_Delete key (h ! p))]))"
  using assms by (cases x) (simp_all add: memory_Conn_Conn_def at_valid)

lemma Conn_run_length: "length (Conn_run c xs h) = length xs"
  by (induction xs arbitrary: h) (simp_all split: prod.splits)

text \<open>
  The simulation: a driver object and a connection object with the same map
  answer every operation alike and have the same map afterwards.
\<close>

lemma Set_simulation:
  assumes "data d = conn_data c"
  shows "fst (DriverMemory_Set k v d) = fst (memory_Conn_Set k v c)"
    and "data (snd (DriverMemory_Set k v d)) = conn_data (snd (memory_Conn_Set k v c))"
  using assms by (simp_all add: DriverMemory_Set_def memory_Conn_Set_def split: option.splits)

lemma Get_simulation:
  assumes "data d = conn_data c"
  shows "fst (DriverMemory_Get k d) = fst (memory_Conn_Get k c)"
    and "data (snd (DriverMemory_Get k d)) = conn_data (snd (memory_Conn_Get k c))"
  using assms by (simp_all add: DriverMemory_Get_def memory_Conn_Get_def split: option.splits)

lemma Delete_simulation:
  assumes "data d = conn_data c"
  shows "fst (DriverMemory_Delete k d) = fst (memory_Conn_Delete k c)"
    and "data (snd (DriverMemory_Delete k d)) = conn_data (snd (memory_Conn_Delete k c))"
  using assms by (simp_all add: DriverMemory_Delete_def memory_Conn_Delete_def split: option.splits)

lemma apply_simulation:
  assumes "p < length h" and "c < length h'" and "data (h ! p) = conn_data (h' ! c)"
  shows "fst (Driver_apply (DriverMemory_Driver p) x h) = fst (Conn_apply (memory_Conn_Conn c) x h')"
    and "length (snd (Driver_apply (DriverMemory_Driver p) x h)) = length h"
    and "length (snd (Conn_apply (memory_Conn_Conn c) x h')) = length h'"
    and "data (snd (Driver_apply (DriverMemory_Driver p) x h) ! p)
          = conn_data (snd (Conn_apply (memory_Conn_Conn c) x h') ! c)"
proof -
  note sims = Set_simulation [OF assms(3)] Get_simulation [OF assms(3)]
    Delete_simulation [OF assms(3)]
  note old = Driver_apply_DriverMemory [OF assms(1), of x]
  note new = Conn_apply_memory_Conn [OF assms(2), of x]
  show "fst (Driver_apply (DriverMemory_Driver p) x h) = fst (Conn_apply (memory_Conn_Conn c) x h')"
    unfolding old new by (cases x) (simp_all add: sims)
  show "length (snd (Driver_apply (DriverMemory_Driver p) x h)) = length h"
    unfolding old by (cases x) simp_all
  show "length (snd (Conn_apply (memory_Conn_Conn c) x h')) = length h'"
    unfolding new by (cases x) simp_all
  show "data (snd (Driver_apply (DriverMemory_Driver p) x h) ! p)
          = conn_data (snd (Conn_apply (memory_Conn_Conn c) x h') ! c)"
    unfolding old new using assms(1,2) by (cases x) (simp_all add: sims)
qed

lemma run_simulation:
  assumes "p < length h" and "c < length h'" and "data (h ! p) = conn_data (h' ! c)"
  shows "Driver_run (DriverMemory_Driver p) xs h = Conn_run (memory_Conn_Conn c) xs h'"
  using assms
proof (induction xs arbitrary: h h')
  case Nil
  show ?case by simp
next
  case (Cons x xs)
  let ?h1 = "snd (Driver_apply (DriverMemory_Driver p) x h)"
  let ?h1' = "snd (Conn_apply (memory_Conn_Conn c) x h')"
  have "Driver_run (DriverMemory_Driver p) xs ?h1 = Conn_run (memory_Conn_Conn c) xs ?h1'"
    using Cons.prems by (intro Cons.IH) (simp_all add: apply_simulation)
  then show ?case
    using apply_simulation(1) [OF Cons.prems, of x] by (simp add: case_prod_beta)
qed

text \<open>
  Claim C9. After one \<open>Open\<close>, the driver of the older generation (opened
  in place, at any address \<open>p\<close> of any heap, whatever it held before) and
  the driver of the newer generation (whose \<open>Open\<close> returns a new
  connection, in any heap) return the same: both \<open>Open\<close> calls succeed, and
  every sequence of \<open>Set\<close>, \<open>Get\<close> and \<open>Delete\<close> gives the same list of
  results. That the older form has one connection per driver object is the
  second half of the theorem on two stores above.
\<close>

theorem generations_equivalent:
  "p < length h \<longrightarrow>
     Driver_session (DriverMemory_Driver p) info xs h
       = ConnDriver_session memory_Driver info' xs h'
     \<and> fst (Driver_session (DriverMemory_Driver p) info xs h) = Returns None
     \<and> length (snd (Driver_session (DriverMemory_Driver p) info xs h)) = length xs"
proof
  assume valid: "p < length h"
  let ?h1 = "h[p := snd (DriverMemory_Open info (h ! p))]"
  let ?h1' = "h' @ [\<lparr>conn_data = Some Map.empty\<rparr>]"
  have old: "Driver_session (DriverMemory_Driver p) info xs h
      = (Returns None, Driver_run (DriverMemory_Driver p) xs ?h1)"
    using valid
    by (simp add: Driver_session_def DriverMemory_Driver_def at_valid DriverMemory_Open_def)
  have new: "ConnDriver_session memory_Driver info' xs h'
      = (Returns None, Conn_run (memory_Conn_Conn (length h')) xs ?h1')"
    by (simp add: ConnDriver_session_def memory_Driver_def memory_Driver_Open_def new_def)
  have "Driver_run (DriverMemory_Driver p) xs ?h1 = Conn_run (memory_Conn_Conn (length h')) xs ?h1'"
    using valid by (intro run_simulation) (simp_all add: DriverMemory_Open_def)
  moreover have "length (Conn_run (memory_Conn_Conn (length h')) xs ?h1') = length xs"
    by (rule Conn_run_length)
  ultimately show "Driver_session (DriverMemory_Driver p) info xs h
       = ConnDriver_session memory_Driver info' xs h'
     \<and> fst (Driver_session (DriverMemory_Driver p) info xs h) = Returns None
     \<and> length (snd (Driver_session (DriverMemory_Driver p) info xs h)) = length xs"
    using old new by simp
qed

theorem generations_equivalent_witness:
  "(0::nat) < length [\<lparr>data = None\<rparr>]
   \<and> Driver_session (DriverMemory_Driver 0) []
        [Op_Get ''key'', Op_Set ''key'' (bytes_of_string ''value1''),
         Op_Set ''key'' (bytes_of_string ''value2''), Op_Get ''key'', Op_Delete ''key'',
         Op_Delete ''something'', Op_Get ''key'']
        [\<lparr>data = None\<rparr>]
     = ConnDriver_session memory_Driver []
        [Op_Get ''key'', Op_Set ''key'' (bytes_of_string ''value1''),
         Op_Set ''key'' (bytes_of_string ''value2''), Op_Get ''key'', Op_Delete ''key'',
         Op_Delete ''something'', Op_Get ''key'']
        []
   \<and> ConnDriver_session memory_Driver []
        [Op_Get ''key'', Op_Set ''key'' (bytes_of_string ''value1''),
         Op_Set ''key'' (bytes_of_string ''value2''), Op_Get ''key'', Op_Delete ''key'',
         Op_Delete ''something'', Op_Get ''key'']
        []
     = (Returns None,
        [Value_error (Returns (nil, Some ErrNotFound)), Error_only (Returns None),
         Error_only (Returns None), Value_error (Returns (bytes_of_string ''value2'', None)),
         Error_only (Returns None), Error_only (Returns None),
         Value_error (Returns (nil, Some ErrNotFound))])"
proof -
  let ?xs = "[Op_Get ''key'', Op_Set ''key'' (bytes_of_string ''value1''),
         Op_Set ''key'' (bytes_of_string ''value2''), Op_Get ''key'', Op_Delete ''key'',
         Op_Delete ''something'', Op_Get ''key'']"
  have valid: "(0::nat) < length [\<lparr>data = None\<rparr>]"
    by simp
  have new: "ConnDriver_session memory_Driver [] ?xs []
     = (Returns None,
        [Value_error (Returns (nil, Some ErrNotFound)), Error_only (Returns None),
         Error_only (Returns None), Value_error (Returns (bytes_of_string ''value2'', None)),
         Error_only (Returns None), Error_only (Returns None),
         Value_error (Returns (nil, Some ErrNotFound))])"
    by (simp add: ConnDriver_session_def memory_Driver_def memory_Driver_Open_def new_def
        memory_Conn_Conn_def at_def memory_Conn_Set_def memory_Conn_Get_def memory_Conn_Delete_def)
  show ?thesis
    using valid new
      generations_equivalent [of 0 "[\<lparr>data = None\<rparr>]" "[]" ?xs "[]" "[]"]
    by simp
qed


end
